theory Spec2Isabelle
  imports Main "HOL-Library.Sublist" "HOL-Library.Product_Lexorder"
begin

section \<open>Python values and control flow\<close>

text \<open>
  The engine is asynchronous Python. A call either returns a value or raises an
  exception; both are values of the model. The strings of the provider, cache and
  store layers (identifiers, file names, release labels, raw bytes) are lists of
  8-bit characters; decoded subtitle text is a list of Unicode code points.
\<close>

datatype exn = Exn string

datatype 'a outcome = Returned 'a | Raised exn

text \<open>\<^verbatim>\<open>str.lower()\<close> on code points below 256: the ASCII capitals and the Latin-1
  capitals (all of 0xC0..0xDE but the multiplication sign 0xD7) move up by 32.\<close>

definition py_lower_char :: "char \<Rightarrow> char" where
  "py_lower_char c =
     (let n = (of_char c :: nat)
      in if (65 \<le> n \<and> n \<le> 90) \<or> (192 \<le> n \<and> n \<le> 222 \<and> n \<noteq> 215)
         then char_of (n + 32) else c)"

definition py_lower :: "string \<Rightarrow> string" where
  "py_lower s = map py_lower_char s"

text \<open>\<^verbatim>\<open>t in s\<close> on strings: \<open>t\<close> occurs in \<open>s\<close> as a contiguous run.\<close>

fun str_contains :: "string \<Rightarrow> string \<Rightarrow> bool" where
  "str_contains t [] = (t = [])"
| "str_contains t (c # cs) = (prefix t (c # cs) \<or> str_contains t cs)"

text \<open>\<^verbatim>\<open>s.split(sep)\<close> for a one-character separator.\<close>

fun split_on :: "char \<Rightarrow> string \<Rightarrow> string list" where
  "split_on sep [] = [[]]"
| "split_on sep (c # cs) =
     (if c = sep then [] # split_on sep cs
      else (case split_on sep cs of
              [] \<Rightarrow> [[c]]
            | w # ws \<Rightarrow> (c # w) # ws))"

section \<open>Provider clients (subtitle/api\_manager.py)\<close>

subsection \<open>Search results\<close>

text \<open>
  The \<^verbatim>\<open>attributes\<close> object of one entry of the token-auth provider's JSON answer.
  A field is \<open>None\<close> when the key is absent. \<open>attr_files\<close> holds the
  \<^verbatim>\<open>file_name\<close> of every listed file (\<open>None\<close> for a file without that key).
\<close>

record attributes =
  attr_language :: "string option"
  attr_download_count :: "int option"
  attr_release :: "string option"
  attr_files :: "string option list option"
  attr_url :: "string option"

record item =
  item_id :: "string option"
  item_attributes :: "attributes option"

text \<open>
  A normalized search result. \<open>language\<close> is \<open>None\<close> for Python's \<^verbatim>\<open>None\<close>;
  \<open>filename\<close>, \<open>release\<close> and \<open>url\<close> are \<open>None\<close> when the dictionary has no such
  key (the hash-lookup provider sets none of them).
\<close>

record result =
  subtitle_id :: "string option"
  language :: "string option"
  download_count :: int
  release :: "string option"
  filename :: "string option"
  url :: "string option"
  format :: string
  provider :: string
  quality_score :: int

definition get_or :: "'a option \<Rightarrow> 'a \<Rightarrow> 'a" where
  "get_or v d = (case v of None \<Rightarrow> d | Some x \<Rightarrow> x)"

definition release_terms :: "string list" where
  "release_terms = [''bluray'', ''web-dl'', ''webrip'']"

text \<open>\<^verbatim>\<open>OpenSubtitlesAPI._calculate_quality_score\<close>\<close>

definition calculate_quality_score :: "attributes \<Rightarrow> int" where
  "calculate_quality_score attrs =
     (let score = 0;
          dc = get_or (attr_download_count attrs) 0;
          score = score + dc * 10;
          rel = py_lower (get_or (attr_release attrs) [])
      in if list_ex (\<lambda>term. str_contains term rel) release_terms
         then score + 100 else score)"

definition empty_attributes :: attributes where
  "empty_attributes =
     \<lparr>attr_language = None, attr_download_count = None, attr_release = None,
      attr_files = None, attr_url = None\<rparr>"

text \<open>\<^verbatim>\<open>attributes.get('files', [{}])[0].get('file_name', '')\<close>: an empty list of
  files raises \<^verbatim>\<open>IndexError\<close>.\<close>

definition first_file_name :: "attributes \<Rightarrow> string outcome" where
  "first_file_name attrs =
     (case attr_files attrs of
        None \<Rightarrow> Returned []
      | Some [] \<Rightarrow> Raised (Exn ''IndexError'')
      | Some (f # _) \<Rightarrow> Returned (get_or f []))"

text \<open>The body of the loop of \<^verbatim>\<open>_process_search_results\<close> for one entry.\<close>

definition process_item :: "item \<Rightarrow> result outcome" where
  "process_item it =
     (let attrs = get_or (item_attributes it) empty_attributes
      in case first_file_name attrs of
           Raised e \<Rightarrow> Raised e
         | Returned fname \<Rightarrow>
             Returned
               \<lparr>subtitle_id = item_id it,
                language = attr_language attrs,
                download_count = get_or (attr_download_count attrs) 0,
                release = Some (get_or (attr_release attrs) []),
                filename = Some fname,
                url = Some (get_or (attr_url attrs) []),
                format = ''srt'',
                provider = ''opensubtitles'',
                quality_score = calculate_quality_score attrs\<rparr>)"

text \<open>\<^verbatim>\<open>sorted(xs, key=..., reverse=True)\<close>: stable, largest score first.\<close>

definition sort_by_score_desc :: "result list \<Rightarrow> result list" where
  "sort_by_score_desc rs = sort_key (\<lambda>r. - quality_score r) rs"

text \<open>\<^verbatim>\<open>OpenSubtitlesAPI._process_search_results\<close>: an entry whose processing raises
  is logged and skipped.\<close>

fun processed :: "item list \<Rightarrow> result list" where
  "processed [] = []"
| "processed (it # its) =
     (case process_item it of
        Raised e \<Rightarrow> processed its
      | Returned r \<Rightarrow> r # processed its)"

definition process_search_results :: "item list \<Rightarrow> result list" where
  "process_search_results results = sort_by_score_desc (processed results)"

subsection \<open>HTTP answers\<close>

text \<open>What a request gives back: a status with a body, or an exception of the
  HTTP client (timeout, connection error, undecodable body).\<close>

datatype 'b reply = Reply nat 'b | Failed exn

text \<open>\<^verbatim>\<open>SubDBAPI.search_by_hash\<close>: the body is the comma-joined language list.\<close>

definition search_by_hash :: "string reply \<Rightarrow> string \<Rightarrow> string \<Rightarrow> result list" where
  "search_by_hash rep file_hash lang =
     (case rep of
        Failed e \<Rightarrow> []
      | Reply status languages \<Rightarrow>
          if status = 200 then
            if lang \<in> set (split_on CHR '','' languages) then
              [\<lparr>subtitle_id = Some file_hash,
                language = Some lang,
                download_count = 0,
                release = None,
                filename = None,
                url = None,
                format = ''srt'',
                provider = ''subdb'',
                quality_score = 50\<rparr>]
            else []
          else [])"

text \<open>
  \<^verbatim>\<open>OpenSubtitlesAPI.search_subtitles\<close> after the rate limiter has admitted the call.
  \<open>authenticated\<close> is what \<^verbatim>\<open>_ensure_authenticated\<close> returned, the reply is the answer
  to the GET request (on status 200 its body is the \<^verbatim>\<open>data\<close> list of the JSON
  document). The second component is the time in seconds that the client itself
  sleeps before it returns. The whole request sits in
  \<^verbatim>\<open>try: ... except Exception: return []\<close>.
\<close>

definition truthy :: "string option \<Rightarrow> bool" where
  "truthy v = (case v of None \<Rightarrow> False | Some s \<Rightarrow> s \<noteq> [])"

definition os_search_subtitles ::
  "bool \<Rightarrow> string option \<Rightarrow> string option \<Rightarrow> item list reply \<Rightarrow> result list outcome \<times> int" where
  "os_search_subtitles authenticated imdb_id query rep =
     (if \<not> authenticated then (Returned [], 0)
      else if \<not> truthy imdb_id \<and> \<not> truthy query then (Returned [], 0)
      else (case rep of
              Failed e \<Rightarrow> (Returned [], 0)
            | Reply status data \<Rightarrow>
                if status = 200 then (Returned (process_search_results data), 0)
                else if status = 429 then (Returned [], 60)
                else (Returned [], 0)))"

text \<open>
  \<^verbatim>\<open>OpenSubtitlesAPI.download_subtitle\<close>: the first reply answers the POST for a
  download link (\<open>None\<close> when the JSON has no \<^verbatim>\<open>link\<close>), the second the GET of
  that link.
\<close>

definition os_download_subtitle ::
  "bool \<Rightarrow> string option reply \<Rightarrow> string reply \<Rightarrow> string option outcome \<times> int" where
  "os_download_subtitle authenticated rep file_rep =
     (if \<not> authenticated then (Returned None, 0)
      else (case rep of
              Failed e \<Rightarrow> (Returned None, 0)
            | Reply status download_link \<Rightarrow>
                if status = 200 \<and> truthy download_link then
                  (case file_rep of
                     Failed e \<Rightarrow> (Returned None, 0)
                   | Reply file_status body \<Rightarrow>
                       if file_status = 200 then (Returned (Some body), 0)
                       else (Returned None, 0))
                else (Returned None, 0)))"

subsection \<open>Rate limiter\<close>

text \<open>
  Timestamps are microseconds (the resolution of \<^verbatim>\<open>datetime\<close>), the window is in
  seconds. \<open>locked\<close> is the state of the limiter's \<^verbatim>\<open>asyncio.Lock\<close>, which is not
  reentrant: entering \<^verbatim>\<open>async with self.lock\<close> while the lock is held waits for a
  release.
\<close>

record rate_limiter =
  max_calls :: int
  time_window :: int
  calls :: "int list"
  locked :: bool

datatype acquired =
    Admitted rate_limiter int
  | Waits_forever rate_limiter
  | Acquire_raised exn rate_limiter

definition in_window :: "rate_limiter \<Rightarrow> int \<Rightarrow> int \<Rightarrow> bool" where
  "in_window rl now call_time \<longleftrightarrow> now - call_time < time_window rl * 1000000"

text \<open>
  \<^verbatim>\<open>RateLimiter.acquire\<close>, called when the clock shows \<open>now\<close>. \<open>Admitted rl s\<close>: the
  call returned after sleeping \<open>s\<close> microseconds in total, leaving the limiter in
  state \<open>rl\<close>. The recursive call is made inside the \<^verbatim>\<open>async with\<close> block, that is
  with the lock still held, after the clock has advanced by the time slept. An
  inner call that came back would have released the lock on its way out, and the
  release by the outer block would then raise \<^verbatim>\<open>RuntimeError\<close>.
\<close>

function acquire :: "rate_limiter \<Rightarrow> int \<Rightarrow> acquired" where
  "acquire rl now =
     (if locked rl then Waits_forever rl
      else
        let rl1 = rl\<lparr>locked := True\<rparr>;
            rl2 = rl1\<lparr>calls := filter (in_window rl1 now) (calls rl1)\<rparr>
        in if int (length (calls rl2)) \<ge> max_calls rl2 then
             (case calls rl2 of
                [] \<Rightarrow> Acquire_raised (Exn ''IndexError'') (rl2\<lparr>locked := False\<rparr>)
              | oldest # _ \<Rightarrow>
                  let sleep_time = time_window rl2 * 1000000 - (now - oldest)
                  in if sleep_time > 0 then
                       (case acquire rl2 (now + sleep_time) of
                          Admitted rl3 slept \<Rightarrow> Acquire_raised (Exn ''RuntimeError'') rl3
                        | Waits_forever rl3 \<Rightarrow> Waits_forever rl3
                        | Acquire_raised e rl3 \<Rightarrow> Acquire_raised (Exn ''RuntimeError'') rl3)
                     else Admitted (rl2\<lparr>calls := calls rl2 @ [now], locked := False\<rparr>) 0)
           else Admitted (rl2\<lparr>calls := calls rl2 @ [now], locked := False\<rparr>) 0)"
  by pat_completeness auto
termination
  by (relation "measure (\<lambda>(rl, now). if locked rl then 0 else 1)") auto

subsection \<open>Aggregation manager\<close>

text \<open>What the retry helper does, in order: the \<open>k\<close>-th call of the operation and
  the sleeps between calls (in units of \<^verbatim>\<open>retry_delay\<close>, seconds).\<close>

datatype event = Attempt nat | Sleep int

text \<open>
  \<^verbatim>\<open>SubtitleAPIManager._retry_operation\<close>. The operation is effectful, so it is given
  as the outcome of each of its successive calls. \<open>last_exception\<close> starts as
  \<^verbatim>\<open>None\<close>, and \<^verbatim>\<open>raise None\<close> is a \<^verbatim>\<open>TypeError\<close>.
\<close>

function retry_loop ::
  "int \<Rightarrow> int \<Rightarrow> (nat \<Rightarrow> 'a outcome) \<Rightarrow> nat \<Rightarrow> exn option \<Rightarrow> 'a outcome \<times> event list" where
  "retry_loop retry_attempts retry_delay operation attempt last_exception =
     (if int attempt < retry_attempts then
        (case operation attempt of
           Returned v \<Rightarrow> (Returned v, [Attempt attempt])
         | Raised e \<Rightarrow>
             let (res, evs) =
                   retry_loop retry_attempts retry_delay operation (Suc attempt) (Some e)
             in if int attempt < retry_attempts - 1
                then (res, Attempt attempt # Sleep (retry_delay * 2 ^ attempt) # evs)
                else (res, Attempt attempt # evs))
      else (case last_exception of
              None \<Rightarrow> (Raised (Exn ''TypeError''), [])
            | Some e \<Rightarrow> (Raised e, [])))"
  by pat_completeness auto
termination
  by (relation "measure (\<lambda>(n, d, operation, attempt, last). nat (n - int attempt))") auto

definition retry_operation ::
  "int \<Rightarrow> int \<Rightarrow> (nat \<Rightarrow> 'a outcome) \<Rightarrow> 'a outcome \<times> event list" where
  "retry_operation retry_attempts retry_delay operation =
     retry_loop retry_attempts retry_delay operation 0 None"

text \<open>\<^verbatim>\<open>SubtitleAPIManager\<close>: \<open>opensubtitles\<close> tells whether the token-auth client
  exists (an API key is configured); the retry settings come from
  \<^verbatim>\<open>RATE_LIMIT_CONFIG\<close>.\<close>

record api_manager =
  opensubtitles :: bool
  retry_attempts :: int
  retry_delay :: int

definition RATE_LIMIT_CONFIG_retry_attempts :: int where
  "RATE_LIMIT_CONFIG_retry_attempts = 3"

definition RATE_LIMIT_CONFIG_retry_delay :: int where
  "RATE_LIMIT_CONFIG_retry_delay = 1"

definition new_api_manager :: "bool \<Rightarrow> api_manager" where
  "new_api_manager has_key =
     \<lparr>opensubtitles = has_key,
      retry_attempts = RATE_LIMIT_CONFIG_retry_attempts,
      retry_delay = RATE_LIMIT_CONFIG_retry_delay\<rparr>"

text \<open>The key of \<^verbatim>\<open>_deduplicate_results\<close>:
  \<^verbatim>\<open>f"{result.get('filename', '')}_{result.get('language', '')}"\<close>.\<close>

definition dedup_key :: "result \<Rightarrow> string" where
  "dedup_key r =
     get_or (filename r) [] @ ''_'' @ (case language r of None \<Rightarrow> ''None'' | Some l \<Rightarrow> l)"

fun deduplicate_loop :: "result list \<Rightarrow> string list \<Rightarrow> result list \<Rightarrow> result list" where
  "deduplicate_loop [] seen unique_results = unique_results"
| "deduplicate_loop (r # rs) seen unique_results =
     (let key = dedup_key r
      in if key \<notin> set seen then deduplicate_loop rs (key # seen) (unique_results @ [r])
         else deduplicate_loop rs seen unique_results)"

definition deduplicate_results :: "result list \<Rightarrow> result list" where
  "deduplicate_results results = deduplicate_loop results [] []"

text \<open>
  \<^verbatim>\<open>SubtitleAPIManager.search_subtitles\<close>. \<open>os_search k\<close> and \<open>subdb_search k\<close> are the
  outcomes of the \<open>k\<close>-th call of the two providers' search operations for this
  request. The result comes with the retry events of the token-auth provider and of
  the hash-lookup provider.
\<close>

definition search_subtitles ::
  "api_manager \<Rightarrow> (nat \<Rightarrow> result list outcome) \<Rightarrow> (nat \<Rightarrow> result list outcome) \<Rightarrow>
     string option \<Rightarrow> result list \<times> event list \<times> event list" where
  "search_subtitles mgr os_search subdb_search file_hash =
     (let (all_results, os_events) =
            (if opensubtitles mgr then
               (case retry_operation (retry_attempts mgr) (retry_delay mgr) os_search of
                  (Returned os_results, evs) \<Rightarrow> (os_results, evs)
                | (Raised e, evs) \<Rightarrow> ([], evs))
             else ([], []));
          (all_results, subdb_events) =
            (if truthy file_hash \<and> length all_results < 3 then
               (case retry_operation (retry_attempts mgr) (retry_delay mgr) subdb_search of
                  (Returned subdb_results, evs) \<Rightarrow> (all_results @ subdb_results, evs)
                | (Raised e, evs) \<Rightarrow> (all_results, evs))
             else (all_results, []));
          unique_results = deduplicate_results all_results
      in (sort_by_score_desc unique_results, os_events, subdb_events))"

text \<open>
  \<^verbatim>\<open>SubtitleAPIManager.download_subtitle_content\<close>, with the outcomes of the
  successive calls of the two providers' download operations. Any exception is
  caught and gives \<^verbatim>\<open>None\<close>.
\<close>

definition download_subtitle_content ::
  "api_manager \<Rightarrow> result \<Rightarrow> (nat \<Rightarrow> string option outcome) \<Rightarrow>
     (nat \<Rightarrow> string option outcome) \<Rightarrow> string option \<times> event list" where
  "download_subtitle_content mgr subtitle_info os_download subdb_download =
     (if provider subtitle_info = ''opensubtitles'' \<and> opensubtitles mgr then
        (case retry_operation (retry_attempts mgr) (retry_delay mgr) os_download of
           (Returned content, evs) \<Rightarrow> (content, evs)
         | (Raised e, evs) \<Rightarrow> (None, evs))
      else if provider subtitle_info = ''subdb'' then
        (case retry_operation (retry_attempts mgr) (retry_delay mgr) subdb_download of
           (Returned content, evs) \<Rightarrow> (content, evs)
         | (Raised e, evs) \<Rightarrow> (None, evs))
      else (None, []))"

text \<open>An operation whose every call has the same outcome.\<close>

definition every_call :: "'a outcome \<Rightarrow> nat \<Rightarrow> 'a outcome" where
  "every_call res k = res"

section \<open>Durable store (subtitle/storage.py)\<close>

text \<open>
  The \<^verbatim>\<open>subtitle_data\<close> dictionary handed to the store; a field is \<open>None\<close> when the
  key is absent.
\<close>

record subtitle_data =
  sd_provider :: "string option"
  sd_id :: "string option"
  sd_download_count :: "int option"
  sd_quality_score :: "int option"
  sd_format :: "string option"
  sd_filename :: "string option"
  sd_release :: "string option"
  sd_file_size :: "int option"
  sd_encoding :: "string option"
  sd_fps :: "int option"
  sd_cd_count :: "int option"
  sd_hearing_impaired :: "bool option"
  sd_machine_translated :: "bool option"
  sd_url :: "string option"

text \<open>A document of the \<^verbatim>\<open>subtitles_metadata\<close> collection. Times are seconds.
  \<open>cache_size\<close> exists once the content has been cached.\<close>

record document =
  movie_id :: string
  doc_language :: string
  doc_provider :: string
  doc_subtitle_id :: "string option"
  doc_download_count :: int
  doc_quality_score :: int
  doc_format :: string
  doc_filename :: string
  doc_release :: string
  file_size :: int
  encoding :: string
  fps :: "int option"
  cd_count :: int
  hearing_impaired :: bool
  machine_translated :: bool
  created_at :: int
  updated_at :: int
  expires_at :: int
  download_url :: string
  cached_content :: bool
  gridfs_file_id :: "string option"
  local_downloads :: int
  last_downloaded :: "int option"
  verification_status :: string
  user_ratings :: "int list"
  sync_offset :: int
  cache_size :: "nat option"

text \<open>A document of the \<^verbatim>\<open>movies_subtitles\<close> collection, with the fields that the
  modelled operations write.\<close>

record movie_document =
  imdb_id :: "string option"
  title :: "string option"
  subtitle_count :: nat
  available_languages :: "string list"
  last_checked :: int

text \<open>A file of the blob store with the tags that are read back.\<close>

record grid_file =
  file_id :: string
  gf_filename :: string
  content_bytes :: string
  compressed :: bool
  original_size :: nat

datatype usage_event = Access string string int | Cache_hit string string int

text \<open>The data held by the database server.\<close>

record mongo =
  subtitles_collection :: "document list"
  movies_collection :: "movie_document list"
  fs :: "grid_file list"
  usage_stats_collection :: "usage_event list"


definition SUBTITLE_SETTINGS_cache_duration :: int where
  "SUBTITLE_SETTINGS_cache_duration = 24 * 60 * 60"

text \<open>\<^verbatim>\<open>collection.replace_one(filter, replacement, upsert=True)\<close>: the first
  document that matches is replaced; without a match the replacement is inserted.\<close>

fun replace_one :: "('d \<Rightarrow> bool) \<Rightarrow> 'd \<Rightarrow> 'd list \<Rightarrow> 'd list" where
  "replace_one flt d [] = [d]"
| "replace_one flt d (x # xs) = (if flt x then d # xs else x # replace_one flt d xs)"


text \<open>\<^verbatim>\<open>collection.update_one(filter, {"$set": ...}, upsert=True)\<close>; \<open>fresh\<close> is the
  document inserted when nothing matches.\<close>

fun update_one_upsert :: "('d \<Rightarrow> bool) \<Rightarrow> ('d \<Rightarrow> 'd) \<Rightarrow> 'd \<Rightarrow> 'd list \<Rightarrow> 'd list" where
  "update_one_upsert flt upd fresh [] = [fresh]"
| "update_one_upsert flt upd fresh (x # xs) =
     (if flt x then upd x # xs else x # update_one_upsert flt upd fresh xs)"

definition same_key :: "string \<Rightarrow> string \<Rightarrow> document \<Rightarrow> bool" where
  "same_key mid lang d \<longleftrightarrow> movie_id d = mid \<and> doc_language d = lang"

text \<open>\<^verbatim>\<open>SubtitleStorage._update_movie_subtitle_count\<close>, with the three readings of the
  clock that it takes.\<close>

definition update_movie_subtitle_count :: "mongo \<Rightarrow> string \<Rightarrow> int \<Rightarrow> int \<Rightarrow> int \<Rightarrow> mongo" where
  "update_movie_subtitle_count db mid now_count now_distinct now_checked =
     (let count = length (filter (\<lambda>d. movie_id d = mid \<and> expires_at d > now_count)
                    (subtitles_collection db));
          languages = remdups (map doc_language
                    (filter (\<lambda>d. movie_id d = mid \<and> expires_at d > now_distinct)
                       (subtitles_collection db)))
      in db\<lparr>movies_collection :=
           update_one_upsert (\<lambda>m. imdb_id m = Some mid \<or> title m = Some mid)
             (\<lambda>m. m\<lparr>subtitle_count := count, available_languages := languages,
                     last_checked := now_checked\<rparr>)
             \<lparr>imdb_id = None, title = None, subtitle_count = count,
              available_languages = languages, last_checked = now_checked\<rparr>
             (movies_collection db)\<rparr>)"

text \<open>The document that \<^verbatim>\<open>store_subtitle_metadata\<close> builds; \<open>utcnow k\<close> is the
  \<open>k\<close>-th reading of the clock during the call.\<close>

definition new_document :: "string \<Rightarrow> string \<Rightarrow> subtitle_data \<Rightarrow> int \<Rightarrow> (nat \<Rightarrow> int) \<Rightarrow> document" where
  "new_document mid lang data cache_duration utcnow =
     \<lparr>movie_id = mid,
      doc_language = lang,
      doc_provider = get_or (sd_provider data) ''unknown'',
      doc_subtitle_id = sd_id data,
      doc_download_count = get_or (sd_download_count data) 0,
      doc_quality_score = get_or (sd_quality_score data) 0,
      doc_format = get_or (sd_format data) ''srt'',
      doc_filename = get_or (sd_filename data) [],
      doc_release = get_or (sd_release data) [],
      file_size = get_or (sd_file_size data) 0,
      encoding = get_or (sd_encoding data) ''utf-8'',
      fps = sd_fps data,
      cd_count = get_or (sd_cd_count data) 1,
      hearing_impaired = get_or (sd_hearing_impaired data) False,
      machine_translated = get_or (sd_machine_translated data) False,
      created_at = utcnow 0,
      updated_at = utcnow 1,
      expires_at = utcnow 2 + cache_duration,
      download_url = get_or (sd_url data) [],
      cached_content = False,
      gridfs_file_id = None,
      local_downloads = 0,
      last_downloaded = None,
      verification_status = ''pending'',
      user_ratings = [],
      sync_offset = 0,
      cache_size = None\<rparr>"

text \<open>
  \<^verbatim>\<open>SubtitleStorage.store_subtitle_metadata\<close>. \<open>up\<close> tells whether the database
  server answers; when it does not, the driver raises, the exception is caught and
  the call returns \<^verbatim>\<open>False\<close>.
\<close>

definition store_subtitle_metadata ::
  "bool \<Rightarrow> int \<Rightarrow> (nat \<Rightarrow> int) \<Rightarrow> mongo \<Rightarrow> string \<Rightarrow> string \<Rightarrow> subtitle_data \<Rightarrow> bool \<times> mongo" where
  "store_subtitle_metadata up cache_duration utcnow db mid lang data =
     (if \<not> up then (False, db)
      else
        let doc = new_document mid lang data cache_duration utcnow;
            db1 = db\<lparr>subtitles_collection :=
                     replace_one (same_key mid lang) doc (subtitles_collection db)\<rparr>;
            db2 = update_movie_subtitle_count db1 mid (utcnow 3) (utcnow 4) (utcnow 5)
        in (True, db2))"





text \<open>A clock that shows the same time at every reading during a call, and the
  empty database.\<close>

definition clock_at :: "int \<Rightarrow> nat \<Rightarrow> int" where
  "clock_at t k = t"

definition empty_mongo :: mongo where
  "empty_mongo =
     \<lparr>subtitles_collection = [], movies_collection = [], fs = [],
      usage_stats_collection = []\<rparr>"

definition no_subtitle_data :: subtitle_data where
  "no_subtitle_data =
     \<lparr>sd_provider = None, sd_id = None, sd_download_count = None, sd_quality_score = None,
      sd_format = None, sd_filename = None, sd_release = None, sd_file_size = None,
      sd_encoding = None, sd_fps = None, sd_cd_count = None, sd_hearing_impaired = None,
      sd_machine_translated = None, sd_url = None\<rparr>"


section \<open>Ephemeral cache (subtitle/cache\_manager.py)\<close>









section \<open>Retrieval facade (database/subtitle\_db.py)\<close>










section \<open>Content processor (subtitle/processor.py)\<close>

subsection \<open>Text and regular expressions\<close>

text \<open>
  Decoded text is a list of Unicode code points; \<open>utxt\<close> turns an ASCII literal of
  the source into text. The classes \<^verbatim>\<open>\d\<close> and \<^verbatim>\<open>\s\<close> of Python's \<^verbatim>\<open>re\<close> on text are
  the decimal digits and the white space of the Unicode database, which is a
  parameter of the model.
\<close>

type_synonym ustr = "nat list"






















subsection \<open>Encoding detection and validation\<close>









subsection \<open>Cleaning\<close>







subsection \<open>Parsing and conversion\<close>




text \<open>Values that the operations return: \<^verbatim>\<open>None\<close>, a text, or a pair.\<close>

datatype pyval = PNone | PStr ustr | PTuple pyval pyval













section \<open>Formulas of the specification\<close>

text \<open>
  The quality score as the specification writes it:
  \<open>score = download_count * 10 + (100 if release matches {bluray, web-dl, webrip} else 0)\<close>,
  where a release matches a term that occurs in its lower-cased text.
\<close>

definition spec_quality_score :: "int \<Rightarrow> string \<Rightarrow> int" where
  "spec_quality_score dc rel =
     dc * 10 +
     (if \<exists>t\<in>{''bluray'', ''web-dl'', ''webrip''}. sublist t (py_lower rel) then 100 else 0)"

text \<open>
  The retry schedule as the specification describes it, when the attempt numbered
  \<open>k\<close> (counting from 0) is the last one made: every earlier attempt \<open>i\<close> is
  followed by a wait of \<open>retry_delay * 2 ^ i\<close>.
\<close>

definition spec_retry_events :: "int \<Rightarrow> nat \<Rightarrow> nat \<Rightarrow> event list" where
  "spec_retry_events delay j k =
     concat (map (\<lambda>i. [Attempt i, Sleep (delay * 2 ^ i)]) [j..<k]) @ [Attempt k]"

definition is_raised :: "'a outcome \<Rightarrow> bool" where
  "is_raised res = (case res of Raised e \<Rightarrow> True | Returned v \<Rightarrow> False)"

definition attempts_made :: "event list \<Rightarrow> nat" where
  "attempts_made evs = length (filter (\<lambda>ev. case ev of Attempt k \<Rightarrow> True | Sleep s \<Rightarrow> False) evs)"






definition spec_result :: "pyval \<Rightarrow> bool" where
  "spec_result v =
     (case v of PStr out \<Rightarrow> True | PTuple (PStr out) message \<Rightarrow> True | _ \<Rightarrow> False)"

section \<open>Facts about the blob store\<close>



section \<open>Facts about the document store\<close>


lemma same_key_new_document: "same_key mid lang (new_document mid lang data dur utcnow)"
  by (simp add: same_key_def new_document_def)

lemma store_subtitle_metadata_docs:
  "subtitles_collection (snd (store_subtitle_metadata True dur utcnow db mid lang data)) =
     replace_one (same_key mid lang) (new_document mid lang data dur utcnow) (subtitles_collection db)"
  by (simp add: store_subtitle_metadata_def Let_def update_movie_subtitle_count_def)



section \<open>Facts about a retried operation that returns at once\<close>

declare retry_loop.simps [simp del]

lemma retry_operation_first_call_returns:
  "0 < n \<Longrightarrow> operation 0 = Returned v \<Longrightarrow>
     retry_operation n d operation = (Returned v, [Attempt 0])"
  unfolding retry_operation_def by (subst retry_loop.simps) simp

lemma retry_operation_every_call_returned:
  "0 < n \<Longrightarrow> retry_operation n d (every_call (Returned v)) = (Returned v, [Attempt 0])"
  unfolding retry_operation_def by (subst retry_loop.simps) (simp add: every_call_def)

section \<open>Quality score\<close>

lemma str_contains_sublist: "str_contains t s \<longleftrightarrow> sublist t s"
  by (induction s) (auto simp: sublist_Cons_right)

lemma calculate_quality_score_spec:
  "calculate_quality_score a =
     spec_quality_score (get_or (attr_download_count a) 0) (get_or (attr_release a) [])"
  by (simp add: calculate_quality_score_def spec_quality_score_def Let_def list_ex_iff
        str_contains_sublist release_terms_def)

lemma process_item_score:
  "process_item it = Returned r \<Longrightarrow>
     quality_score r = spec_quality_score (download_count r) (get_or (release r) [])"
  by (auto simp: process_item_def Let_def calculate_quality_score_spec get_or_def
           split: outcome.splits)

lemma processed_mem:
  "r \<in> set (processed its) \<Longrightarrow> \<exists>it\<in>set its. process_item it = Returned r"
  by (induction its) (auto split: outcome.splits)

lemma process_search_results_score:
  assumes "r \<in> set (process_search_results its)"
  shows "quality_score r = spec_quality_score (download_count r) (get_or (release r) [])"
proof -
  from assms have "r \<in> set (processed its)"
    by (simp add: process_search_results_def sort_by_score_desc_def)
  then obtain it where "process_item it = Returned r"
    using processed_mem by blast
  then show ?thesis by (rule process_item_score)
qed

lemma search_by_hash_score: "r \<in> set (search_by_hash rep h l) \<Longrightarrow> quality_score r = 50"
  by (auto simp: search_by_hash_def split: reply.splits if_splits)

lemma py_lower_BluRay: "py_lower ''BluRay'' = ''bluray''"
  by code_simp

lemma spec_quality_score_BluRay:
  "spec_quality_score dc (pre @ ''BluRay'' @ post) = dc * 10 + 100"
proof -
  have "py_lower (pre @ ''BluRay'' @ post) = py_lower pre @ ''bluray'' @ py_lower post"
    using py_lower_BluRay by (simp add: py_lower_def)
  then have "sublist ''bluray'' (py_lower (pre @ ''BluRay'' @ post))"
    by (simp only: sublist_appendI)
  then show ?thesis
    unfolding spec_quality_score_def by simp
qed

text \<open>
  C1. The token-auth provider scores a result with
  \<open>download_count * 10\<close> plus 100 when the lower-cased release text contains one of
  \<open>bluray\<close>, \<open>web-dl\<close>, \<open>webrip\<close>, and plus 0 otherwise: this holds for the scoring
  function and for every result that \<^verbatim>\<open>_process_search_results\<close> returns. Every
  result of the hash-lookup provider has the score 50. A download count of 500 with
  a release text containing \<open>BluRay\<close> gives 5100; a download count of 0 with no
  matching term gives 0.
\<close>

theorem quality_score_formula:
  "calculate_quality_score a =
     spec_quality_score (get_or (attr_download_count a) 0) (get_or (attr_release a) [])
   \<and> (\<forall>r\<in>set (process_search_results its).
         quality_score r = spec_quality_score (download_count r) (get_or (release r) []))
   \<and> (\<forall>r\<in>set (search_by_hash rep h l). quality_score r = 50)
   \<and> (attr_download_count a = Some 500 \<and> attr_release a = Some (pre @ ''BluRay'' @ post)
        \<longrightarrow> calculate_quality_score a = 5100)
   \<and> (get_or (attr_download_count a) 0 = 0
        \<and> \<not> (\<exists>t\<in>{''bluray'', ''web-dl'', ''webrip''}.
                sublist t (py_lower (get_or (attr_release a) [])))
        \<longrightarrow> calculate_quality_score a = 0)"
proof (intro conjI ballI impI)
  show "calculate_quality_score a =
     spec_quality_score (get_or (attr_download_count a) 0) (get_or (attr_release a) [])"
    by (rule calculate_quality_score_spec)
next
  fix r assume "r \<in> set (process_search_results its)"
  then show "quality_score r = spec_quality_score (download_count r) (get_or (release r) [])"
    by (rule process_search_results_score)
next
  fix r assume "r \<in> set (search_by_hash rep h l)"
  then show "quality_score r = 50" by (rule search_by_hash_score)
next
  assume "attr_download_count a = Some 500 \<and> attr_release a = Some (pre @ ''BluRay'' @ post)"
  then have "calculate_quality_score a = spec_quality_score 500 (pre @ ''BluRay'' @ post)"
    by (simp add: calculate_quality_score_spec get_or_def)
  also have "\<dots> = 500 * 10 + 100" by (rule spec_quality_score_BluRay)
  finally show "calculate_quality_score a = 5100" by simp
next
  assume "get_or (attr_download_count a) 0 = 0
        \<and> \<not> (\<exists>t\<in>{''bluray'', ''web-dl'', ''webrip''}.
                sublist t (py_lower (get_or (attr_release a) [])))"
  then show "calculate_quality_score a = 0"
    unfolding calculate_quality_score_spec spec_quality_score_def by simp
qed

theorem quality_score_formula_witness:
  "calculate_quality_score
     (empty_attributes\<lparr>attr_download_count := Some 500,
        attr_release := Some ''Heat.BluRay.x264''\<rparr>) = 5100
   \<and> calculate_quality_score
     (empty_attributes\<lparr>attr_download_count := Some 0, attr_release := Some ''Heat.CAM''\<rparr>) = 0
   \<and> (\<exists>r\<in>set (process_search_results
          [\<lparr>item_id = Some ''7'',
            item_attributes = Some (empty_attributes\<lparr>attr_download_count := Some 3\<rparr>)\<rparr>]).
         quality_score r = 30)
   \<and> (\<exists>r\<in>set (search_by_hash (Reply 200 ''en,fr'') ''abc'' ''fr''). quality_score r = 50)"
proof -
  let ?a = "empty_attributes\<lparr>attr_download_count := Some 500,
        attr_release := Some ''Heat.BluRay.x264''\<rparr>"
  let ?b = "empty_attributes\<lparr>attr_download_count := Some 0, attr_release := Some ''Heat.CAM''\<rparr>"
  let ?its = "[\<lparr>item_id = Some ''7'',
            item_attributes = Some (empty_attributes\<lparr>attr_download_count := Some 3\<rparr>)\<rparr>]"
  let ?rep = "Reply 200 ''en,fr''"
  note t = quality_score_formula [of ?a ?its ?rep "''abc''" "''fr''" "''Heat.''" "''.x264''"]
  have "attr_download_count ?a = Some 500 \<and> attr_release ?a = Some (''Heat.'' @ ''BluRay'' @ ''.x264'')"
    by simp
  with t have c1: "calculate_quality_score ?a = 5100" by blast
  have low: "py_lower ''Heat.CAM'' = ''heat.cam''" by code_simp
  have "get_or (attr_download_count ?b) 0 = 0
        \<and> \<not> (\<exists>t\<in>{''bluray'', ''web-dl'', ''webrip''}.
                sublist t (py_lower (get_or (attr_release ?b) [])))"
    by (simp add: get_or_def low sublist_code(3))
  with quality_score_formula [of ?b "[]" ?rep "''abc''" "''fr''" "[]" "[]"]
  have c2: "calculate_quality_score ?b = 0" by blast
  obtain r where r: "r \<in> set (process_search_results ?its)"
    by (simp add: process_search_results_def sort_by_score_desc_def process_item_def
          first_file_name_def get_or_def empty_attributes_def)
  with t have "quality_score r = spec_quality_score (download_count r) (get_or (release r) [])"
    by blast
  moreover from r have "download_count r = 3 \<and> release r = Some []"
    by (simp add: process_search_results_def sort_by_score_desc_def process_item_def
          first_file_name_def get_or_def empty_attributes_def)
  ultimately have "quality_score r = 30"
    by (simp add: spec_quality_score_def get_or_def py_lower_def)
  with r have c3: "\<exists>r\<in>set (process_search_results ?its). quality_score r = 30" by blast
  obtain q where q: "q \<in> set (search_by_hash ?rep ''abc'' ''fr'')"
    by (simp add: search_by_hash_def)
  with t have "quality_score q = 50" by blast
  with q have c4: "\<exists>r\<in>set (search_by_hash ?rep ''abc'' ''fr''). quality_score r = 50" by blast
  from c1 c2 c3 c4 show ?thesis by blast
qed
section \<open>Metadata upsert\<close>

lemma filter_replace_one_other:
  "flt d \<Longrightarrow> filter (\<lambda>x. \<not> flt x) (replace_one flt d xs) = filter (\<lambda>x. \<not> flt x) xs"
  by (induction xs) auto

lemma length_filter_replace_one:
  "flt d \<Longrightarrow> length (filter flt (replace_one flt d xs)) = max 1 (length (filter flt xs))"
  by (induction xs) auto

lemma filter_replace_one_single:
  "flt d \<Longrightarrow> length (filter flt xs) \<le> 1 \<Longrightarrow> filter flt (replace_one flt d xs) = [d]"
  by (induction xs) (auto simp: filter_empty_conv split: if_splits)

text \<open>
  C2, as the specification states it, fails: the second of two upserts with
  identical data replaces the whole record, \<open>created_at\<close> included. With the first
  call made at time 100 and the second at time 200 the single record for the pair
  carries \<open>created_at = 100\<close> after the first call and \<open>created_at = 200\<close> after the
  second.
\<close>

theorem second_upsert_changes_created_at:
  "map created_at (subtitles_collection (snd
     (store_subtitle_metadata True 86400 (clock_at 100) empty_mongo ''tt0113277'' ''en''
        no_subtitle_data))) = [100]
   \<and> map created_at (subtitles_collection (snd
     (store_subtitle_metadata True 86400 (clock_at 200)
        (snd (store_subtitle_metadata True 86400 (clock_at 100) empty_mongo ''tt0113277'' ''en''
           no_subtitle_data))
        ''tt0113277'' ''en'' no_subtitle_data))) = [200]"
  by (simp add: store_subtitle_metadata_docs empty_mongo_def same_key_new_document)
     (simp add: new_document_def clock_at_def)

text \<open>
  C2, amended. When the store holds at most one record for a (movie, language) pair
  (the unique index), two successful upserts with identical data for the pair leave
  exactly one record for it, and leave the records of all other pairs as they were.
  That record is the document built by the second call: its data fields are those
  of the first call, while \<open>created_at\<close>, \<open>updated_at\<close> and \<open>expires_at\<close> are taken
  from the clock of the second call.
\<close>

theorem upsert_twice_one_record:
  assumes "length (filter (same_key mid lang) (subtitles_collection db)) \<le> 1"
  shows "filter (same_key mid lang)
           (subtitles_collection (snd (store_subtitle_metadata True dur clock2
              (snd (store_subtitle_metadata True dur clock1 db mid lang data)) mid lang data))) =
           [new_document mid lang data dur clock2]
         \<and> filter (\<lambda>d. \<not> same_key mid lang d)
           (subtitles_collection (snd (store_subtitle_metadata True dur clock2
              (snd (store_subtitle_metadata True dur clock1 db mid lang data)) mid lang data))) =
           filter (\<lambda>d. \<not> same_key mid lang d) (subtitles_collection db)
         \<and> new_document mid lang data dur clock2 =
           (new_document mid lang data dur clock1)
             \<lparr>created_at := clock2 0, updated_at := clock2 1, expires_at := clock2 2 + dur\<rparr>"
proof (intro conjI)
  let ?flt = "same_key mid lang"
  let ?d1 = "new_document mid lang data dur clock1"
  let ?d2 = "new_document mid lang data dur clock2"
  have k1: "?flt ?d1" and k2: "?flt ?d2" by (rule same_key_new_document)+
  from k1 assms have one: "filter ?flt (replace_one ?flt ?d1 (subtitles_collection db)) = [?d1]"
    by (rule filter_replace_one_single)
  then have "length (filter ?flt (replace_one ?flt ?d1 (subtitles_collection db))) \<le> 1"
    by simp
  with k2 have "filter ?flt
      (replace_one ?flt ?d2 (replace_one ?flt ?d1 (subtitles_collection db))) = [?d2]"
    by (rule filter_replace_one_single)
  then show "filter ?flt
           (subtitles_collection (snd (store_subtitle_metadata True dur clock2
              (snd (store_subtitle_metadata True dur clock1 db mid lang data)) mid lang data))) =
           [?d2]"
    by (simp add: store_subtitle_metadata_docs)
  show "filter (\<lambda>d. \<not> ?flt d)
           (subtitles_collection (snd (store_subtitle_metadata True dur clock2
              (snd (store_subtitle_metadata True dur clock1 db mid lang data)) mid lang data))) =
           filter (\<lambda>d. \<not> ?flt d) (subtitles_collection db)"
    by (simp add: store_subtitle_metadata_docs filter_replace_one_other k1 k2)
  show "?d2 = ?d1\<lparr>created_at := clock2 0, updated_at := clock2 1, expires_at := clock2 2 + dur\<rparr>"
    by (simp add: new_document_def)
qed

theorem upsert_twice_one_record_witness:
  "length (filter (same_key ''tt0113277'' ''en'') (subtitles_collection empty_mongo)) \<le> 1
   \<and> filter (same_key ''tt0113277'' ''en'')
        (subtitles_collection (snd (store_subtitle_metadata True 86400 (clock_at 200)
           (snd (store_subtitle_metadata True 86400 (clock_at 100) empty_mongo
              ''tt0113277'' ''en'' no_subtitle_data))
           ''tt0113277'' ''en'' no_subtitle_data))) =
        [new_document ''tt0113277'' ''en'' no_subtitle_data 86400 (clock_at 200)]
   \<and> created_at (new_document ''tt0113277'' ''en'' no_subtitle_data 86400 (clock_at 200)) = 200"
proof -
  have h: "length (filter (same_key ''tt0113277'' ''en'') (subtitles_collection empty_mongo)) \<le> 1"
    by (simp add: empty_mongo_def)
  note t = upsert_twice_one_record [OF h, of 86400 "clock_at 200" "clock_at 100" no_subtitle_data]
  have "created_at (new_document ''tt0113277'' ''en'' no_subtitle_data 86400 (clock_at 200)) = 200"
    by (simp add: new_document_def clock_at_def)
  with h t show ?thesis by blast
qed
section \<open>De-duplication of search results\<close>

lemma deduplicate_loop_keys:
  "distinct (map dedup_key unique) \<Longrightarrow> set (map dedup_key unique) \<subseteq> set seen \<Longrightarrow>
   distinct (map dedup_key (deduplicate_loop rs seen unique))"
proof (induction rs arbitrary: seen unique)
  case Nil
  then show ?case by simp
next
  case (Cons r rs)
  show ?case
  proof (cases "dedup_key r \<in> set seen")
    case True
    with Cons show ?thesis by simp
  next
    case False
    with Cons.prems have "distinct (map dedup_key (unique @ [r]))"
      and "set (map dedup_key (unique @ [r])) \<subseteq> set (dedup_key r # seen)" by auto
    then have "distinct (map dedup_key (deduplicate_loop rs (dedup_key r # seen) (unique @ [r])))"
      by (rule Cons.IH)
    with False show ?thesis by simp
  qed
qed

lemma deduplicate_loop_set:
  "set (map dedup_key unique) = set seen \<Longrightarrow>
   set (map dedup_key (deduplicate_loop rs seen unique)) = set seen \<union> set (map dedup_key rs)"
proof (induction rs arbitrary: seen unique)
  case Nil
  then show ?case by simp
next
  case (Cons r rs)
  show ?case
  proof (cases "dedup_key r \<in> set seen")
    case True
    with Cons show ?thesis by auto
  next
    case False
    from Cons.prems have "set (map dedup_key (unique @ [r])) = set (dedup_key r # seen)" by auto
    then have "set (map dedup_key (deduplicate_loop rs (dedup_key r # seen) (unique @ [r]))) =
        set (dedup_key r # seen) \<union> set (map dedup_key rs)"
      by (rule Cons.IH)
    with False show ?thesis by auto
  qed
qed

lemma deduplicate_results_distinct: "distinct (map dedup_key (deduplicate_results rs))"
  by (simp add: deduplicate_results_def deduplicate_loop_keys)

lemma deduplicate_results_keys:
  "set (map dedup_key (deduplicate_results rs)) = set (map dedup_key rs)"
  using deduplicate_loop_set [of "[]" "[]" rs] by (simp add: deduplicate_results_def)

lemma distinct_map_filter_length:
  "distinct (map f xs) \<Longrightarrow> k \<in> set (map f xs) \<Longrightarrow> length (filter (\<lambda>x. f x = k) xs) = 1"
proof (induction xs)
  case Nil
  then show ?case by simp
next
  case (Cons x xs)
  show ?case
  proof (cases "f x = k")
    case True
    with Cons.prems have "k \<notin> f ` set xs" by simp
    then have "\<forall>y\<in>set xs. f y \<noteq> k" by blast
    then have "filter (\<lambda>y. f y = k) xs = []" by (simp add: filter_empty_conv)
    with True show ?thesis by simp
  next
    case False
    with Cons show ?thesis by auto
  qed
qed

lemma deduplicate_results_one_per_key:
  assumes "r \<in> set rs"
  shows "length (filter (\<lambda>x. dedup_key x = dedup_key r) (deduplicate_results rs)) = 1"
proof -
  from assms have "dedup_key r \<in> set (map dedup_key (deduplicate_results rs))"
    unfolding deduplicate_results_keys by simp
  with deduplicate_results_distinct show ?thesis by (rule distinct_map_filter_length)
qed

text \<open>
  C3. The key that \<^verbatim>\<open>_deduplicate_results\<close> builds is the text
  \<^verbatim>\<open>filename + "_" + language\<close>, which does not determine the pair: the file name
  \<open>Heat_pt\<close> with language \<open>BR\<close> and the file name \<open>Heat\<close> with language \<open>pt_BR\<close>
  both give \<open>Heat_pt_BR\<close>. For the three results below, the last two with the same
  file name and language, the search returns the first result alone, so no result
  with the file name \<open>Heat\<close> and the language \<open>pt_BR\<close> is left, where the claim asks
  for exactly one.
\<close>

theorem search_subtitles_key_collision:
  "fst (search_subtitles (new_api_manager True)
     (every_call (Returned
        [\<lparr>subtitle_id = Some ''3'', language = Some ''BR'', download_count = 3,
          release = Some ''Heat.1995'', filename = Some ''Heat_pt'', url = Some [],
          format = ''srt'', provider = ''opensubtitles'', quality_score = 30\<rparr>,
         \<lparr>subtitle_id = Some ''2'', language = Some ''pt_BR'', download_count = 2,
          release = Some ''Heat.1995'', filename = Some ''Heat'', url = Some [],
          format = ''srt'', provider = ''opensubtitles'', quality_score = 20\<rparr>,
         \<lparr>subtitle_id = Some ''1'', language = Some ''pt_BR'', download_count = 1,
          release = Some ''Heat.1995'', filename = Some ''Heat'', url = Some [],
          format = ''srt'', provider = ''opensubtitles'', quality_score = 10\<rparr>]))
     (every_call (Returned [])) None) =
   [\<lparr>subtitle_id = Some ''3'', language = Some ''BR'', download_count = 3,
          release = Some ''Heat.1995'', filename = Some ''Heat_pt'', url = Some [],
          format = ''srt'', provider = ''opensubtitles'', quality_score = 30\<rparr>]"
proof -
  have r: "retry_operation 3 1 (every_call (Returned
        [\<lparr>subtitle_id = Some ''3'', language = Some ''BR'', download_count = 3,
          release = Some ''Heat.1995'', filename = Some ''Heat_pt'', url = Some [],
          format = ''srt'', provider = ''opensubtitles'', quality_score = 30\<rparr>,
         \<lparr>subtitle_id = Some ''2'', language = Some ''pt_BR'', download_count = 2,
          release = Some ''Heat.1995'', filename = Some ''Heat'', url = Some [],
          format = ''srt'', provider = ''opensubtitles'', quality_score = 20\<rparr>,
         \<lparr>subtitle_id = Some ''1'', language = Some ''pt_BR'', download_count = 1,
          release = Some ''Heat.1995'', filename = Some ''Heat'', url = Some [],
          format = ''srt'', provider = ''opensubtitles'', quality_score = 10\<rparr>])) =
      (Returned
        [\<lparr>subtitle_id = Some ''3'', language = Some ''BR'', download_count = 3,
          release = Some ''Heat.1995'', filename = Some ''Heat_pt'', url = Some [],
          format = ''srt'', provider = ''opensubtitles'', quality_score = 30\<rparr>,
         \<lparr>subtitle_id = Some ''2'', language = Some ''pt_BR'', download_count = 2,
          release = Some ''Heat.1995'', filename = Some ''Heat'', url = Some [],
          format = ''srt'', provider = ''opensubtitles'', quality_score = 20\<rparr>,
         \<lparr>subtitle_id = Some ''1'', language = Some ''pt_BR'', download_count = 1,
          release = Some ''Heat.1995'', filename = Some ''Heat'', url = Some [],
          format = ''srt'', provider = ''opensubtitles'', quality_score = 10\<rparr>], [Attempt 0])"
    by (rule retry_operation_every_call_returned) simp
  show ?thesis
    by (simp add: search_subtitles_def new_api_manager_def RATE_LIMIT_CONFIG_retry_attempts_def
          RATE_LIMIT_CONFIG_retry_delay_def r truthy_def deduplicate_results_def dedup_key_def
          get_or_def sort_by_score_desc_def)
qed
section \<open>Rate limiter\<close>

declare acquire.simps [simp del]


lemma in_window_locked [simp]: "in_window (rl\<lparr>locked := b\<rparr>) = in_window rl"
  by (intro ext) (simp add: in_window_def)

lemma acquire_locked: "locked rl \<Longrightarrow> acquire rl t = Waits_forever rl"
  by (subst acquire.simps) simp

lemma acquire_below_capacity:
  assumes "\<not> locked rl" "int (length (filter (in_window rl now) (calls rl))) < max_calls rl"
  shows "acquire rl now =
     Admitted (rl\<lparr>calls := filter (in_window rl now) (calls rl) @ [now], locked := False\<rparr>) 0"
  using assms by (subst acquire.simps) (simp add: Let_def)

lemma acquire_at_capacity:
  assumes "\<not> locked rl" "0 < max_calls rl"
    "max_calls rl \<le> int (length (filter (in_window rl now) (calls rl)))"
  shows "acquire rl now =
     Waits_forever (rl\<lparr>calls := filter (in_window rl now) (calls rl), locked := True\<rparr>)"
proof -
  let ?cs = "filter (in_window rl now) (calls rl)"
  from assms obtain oldest rest where cs: "?cs = oldest # rest"
    by (cases ?cs) auto
  then have "oldest \<in> set ?cs" by simp
  then have w: "now - oldest < time_window rl * 1000000" by (simp add: in_window_def)
  have inner: "acquire (rl\<lparr>locked := True, calls := oldest # rest\<rparr>) t =
      Waits_forever (rl\<lparr>locked := True, calls := oldest # rest\<rparr>)" for t
    by (rule acquire_locked) simp
  have f: "filter (in_window (rl\<lparr>locked := True\<rparr>) now) (calls rl) = oldest # rest"
    using cs by simp
  show ?thesis
    using assms w
    by (subst acquire.simps) (simp add: Let_def f cs inner)
qed

text \<open>
  C4. A limiter of two calls per 60 seconds admits the calls made at 0 s and at 1 s
  without delay. The third call, made at 2 s, finds the window full, sleeps until
  the oldest timestamp leaves the window and then calls \<^verbatim>\<open>acquire\<close> again while it
  still holds the lock; the inner call waits for that lock, which is never released.
  The third call is not admitted, and the lock stays held, so no later caller is
  admitted either. The claim asks for the call to be admitted after the delay.
\<close>

theorem acquire_beyond_capacity_waits_forever:
  "acquire \<lparr>max_calls = 2, time_window = 60, calls = [], locked = False\<rparr> 0 =
     Admitted \<lparr>max_calls = 2, time_window = 60, calls = [0], locked = False\<rparr> 0
   \<and> acquire \<lparr>max_calls = 2, time_window = 60, calls = [0], locked = False\<rparr> 1000000 =
     Admitted \<lparr>max_calls = 2, time_window = 60, calls = [0, 1000000], locked = False\<rparr> 0
   \<and> acquire \<lparr>max_calls = 2, time_window = 60, calls = [0, 1000000], locked = False\<rparr>
       2000000 =
     Waits_forever \<lparr>max_calls = 2, time_window = 60, calls = [0, 1000000], locked = True\<rparr>
   \<and> acquire \<lparr>max_calls = 2, time_window = 60, calls = [0, 1000000], locked = True\<rparr>
       120000000 =
     Waits_forever \<lparr>max_calls = 2, time_window = 60, calls = [0, 1000000], locked = True\<rparr>"
proof (intro conjI)
  show "acquire \<lparr>max_calls = 2, time_window = 60, calls = [], locked = False\<rparr> 0 =
     Admitted \<lparr>max_calls = 2, time_window = 60, calls = [0], locked = False\<rparr> 0"
    by (subst acquire_below_capacity) (simp_all add: in_window_def)
  show "acquire \<lparr>max_calls = 2, time_window = 60, calls = [0], locked = False\<rparr> 1000000 =
     Admitted \<lparr>max_calls = 2, time_window = 60, calls = [0, 1000000], locked = False\<rparr> 0"
    by (subst acquire_below_capacity) (simp_all add: in_window_def)
  show "acquire \<lparr>max_calls = 2, time_window = 60, calls = [0, 1000000], locked = False\<rparr>
       2000000 =
     Waits_forever \<lparr>max_calls = 2, time_window = 60, calls = [0, 1000000], locked = True\<rparr>"
    by (subst acquire_at_capacity) (simp_all add: in_window_def)
  show "acquire \<lparr>max_calls = 2, time_window = 60, calls = [0, 1000000], locked = True\<rparr>
       120000000 =
     Waits_forever \<lparr>max_calls = 2, time_window = 60, calls = [0, 1000000], locked = True\<rparr>"
    by (rule acquire_locked) simp
qed
section \<open>Throttling and other failure statuses of the token-auth provider\<close>

text \<open>
  C5, as the specification states it, fails: on status 429 the search of the
  token-auth client sleeps 60 seconds itself and then returns the empty list, so
  nothing is raised and the retry helper of the manager makes one attempt and does
  not retry.
\<close>

theorem throttling_is_waited_out_in_client:
  "os_search_subtitles True (Some ''tt0133093'') None (Reply 429 []) = (Returned [], 60)
   \<and> retry_operation 3 1
        (every_call (fst (os_search_subtitles True (Some ''tt0133093'') None (Reply 429 [])))) =
       (Returned [], [Attempt 0])"
proof -
  have s: "os_search_subtitles True (Some ''tt0133093'') None (Reply 429 []) = (Returned [], 60)"
    by (simp add: os_search_subtitles_def truthy_def)
  have "retry_operation 3 1 (every_call (Returned ([] :: result list))) =
          (Returned [], [Attempt 0])"
    by (rule retry_operation_first_call_returns) (simp_all add: every_call_def)
  with s show ?thesis by simp
qed

text \<open>
  C5, amended. A search or download of the token-auth client that receives a status
  other than 200 returns the empty result (\<open>[]\<close> for a search, \<^verbatim>\<open>None\<close> for a
  download) and raises nothing. A search that receives 429 sleeps 60 seconds in the
  client before it returns; no other status makes the client wait, and a download
  does not treat 429 specially. As nothing is raised, the retry helper makes one
  attempt and no retry.
\<close>

theorem non_200_returns_empty_without_retry:
  "status \<noteq> 200 \<longrightarrow>
     os_search_subtitles auth imdb query (Reply status body) =
       (Returned [],
        if auth \<and> (truthy imdb \<or> truthy query) \<and> status = 429 then 60 else 0)
     \<and> os_download_subtitle auth (Reply status download_link) file_rep = (Returned None, 0)
     \<and> (0 < n \<longrightarrow>
          retry_operation n d
            (every_call (fst (os_search_subtitles auth imdb query (Reply status body)))) =
            (Returned [], [Attempt 0])
          \<and> retry_operation n d
            (every_call (fst (os_download_subtitle auth (Reply status download_link) file_rep))) =
            (Returned None, [Attempt 0]))"
proof (intro impI conjI)
  assume st: "status \<noteq> 200"
  then show s: "os_search_subtitles auth imdb query (Reply status body) =
       (Returned [],
        if auth \<and> (truthy imdb \<or> truthy query) \<and> status = 429 then 60 else 0)"
    by (simp add: os_search_subtitles_def)
  from st show dl: "os_download_subtitle auth (Reply status download_link) file_rep =
       (Returned None, 0)"
    by (simp add: os_download_subtitle_def)
  assume n: "0 < n"
  from n s show "retry_operation n d
            (every_call (fst (os_search_subtitles auth imdb query (Reply status body)))) =
            (Returned [], [Attempt 0])"
    by (intro retry_operation_first_call_returns) (simp_all add: every_call_def)
  from n dl show "retry_operation n d
            (every_call (fst (os_download_subtitle auth (Reply status download_link) file_rep))) =
            (Returned None, [Attempt 0])"
    by (intro retry_operation_first_call_returns) (simp_all add: every_call_def)
qed

theorem non_200_returns_empty_without_retry_witness:
  "os_search_subtitles True None (Some ''Heat'') (Reply 500 []) = (Returned [], 0)
   \<and> os_search_subtitles True None (Some ''Heat'') (Reply 429 []) = (Returned [], 60)
   \<and> os_download_subtitle True (Reply 429 (Some ''http://link'')) (Reply 200 ''1'') =
        (Returned None, 0)
   \<and> retry_operation 3 1
        (every_call (fst (os_search_subtitles True None (Some ''Heat'') (Reply 429 [])))) =
        (Returned [], [Attempt 0])"
proof -
  have a: "(500::nat) \<noteq> 200" and b: "(429::nat) \<noteq> 200" and c: "(0::int) < 3" by simp_all
  note t500 = non_200_returns_empty_without_retry
    [of 500 True None "Some ''Heat''" "[]" "Some ''http://link''" "Reply 200 ''1''" 3 1]
  note t429 = non_200_returns_empty_without_retry
    [of 429 True None "Some ''Heat''" "[]" "Some ''http://link''" "Reply 200 ''1''" 3 1]
  from t500 a have "os_search_subtitles True None (Some ''Heat'') (Reply 500 []) =
       (Returned [], if True \<and> (truthy None \<or> truthy (Some ''Heat'')) \<and> (500::nat) = 429 then 60 else 0)"
    by blast
  then have c1: "os_search_subtitles True None (Some ''Heat'') (Reply 500 []) = (Returned [], 0)"
    by simp
  from t429 b have "os_search_subtitles True None (Some ''Heat'') (Reply 429 []) =
       (Returned [], if True \<and> (truthy None \<or> truthy (Some ''Heat'')) \<and> (429::nat) = 429 then 60 else 0)"
    by blast
  then have c2: "os_search_subtitles True None (Some ''Heat'') (Reply 429 []) = (Returned [], 60)"
    by (simp add: truthy_def)
  from t429 b have c3: "os_download_subtitle True (Reply 429 (Some ''http://link'')) (Reply 200 ''1'') =
        (Returned None, 0)" by blast
  from t429 b c have c4: "retry_operation 3 1
        (every_call (fst (os_search_subtitles True None (Some ''Heat'') (Reply 429 [])))) =
        (Returned [], [Attempt 0])" by blast
  from c1 c2 c3 c4 show ?thesis by blast
qed
section \<open>Retry helper\<close>

lemma retry_loop_success:
  assumes "j \<le> k" "int k < n" "\<forall>i. j \<le> i \<and> i < k \<longrightarrow> is_raised (operation i)"
    "operation k = Returned v"
  shows "retry_loop n d operation j lst = (Returned v, spec_retry_events d j k)"
  using assms
proof (induction "k - j" arbitrary: j lst)
  case 0
  then have "j = k" by simp
  with 0 show ?case
    by (subst retry_loop.simps) (simp add: spec_retry_events_def)
next
  case (Suc m)
  then have lt: "j < k" by simp
  from Suc.prems(3) lt have "is_raised (operation j)" by simp
  then obtain e where e: "operation j = Raised e"
    by (cases "operation j") (auto simp: is_raised_def)
  have rec: "retry_loop n d operation (Suc j) (Some e) = (Returned v, spec_retry_events d (Suc j) k)"
    using Suc.hyps Suc.prems lt by (intro Suc.hyps(1)) auto
  have up: "[j..<k] = j # [Suc j..<k]" using lt by (simp add: upt_conv_Cons)
  from lt Suc.prems have "int j < n - 1" by simp
  then show ?case
    by (subst retry_loop.simps) (simp add: e rec spec_retry_events_def up)
qed

lemma retry_loop_exhausted:
  assumes "j \<le> k" "int k = n - 1" "\<forall>i. j \<le> i \<and> i < k \<longrightarrow> is_raised (operation i)"
    "operation k = Raised e"
  shows "retry_loop n d operation j lst = (Raised e, spec_retry_events d j k)"
  using assms
proof (induction "k - j" arbitrary: j lst)
  case 0
  then have jk: "j = k" by simp
  have stop: "retry_loop n d operation (Suc k) (Some e) = (Raised e, [])"
    using 0 by (subst retry_loop.simps) simp
  from 0 jk show ?case
    by (subst retry_loop.simps) (simp add: spec_retry_events_def stop)
next
  case (Suc m)
  then have lt: "j < k" by simp
  from Suc.prems(3) lt have "is_raised (operation j)" by simp
  then obtain e' where e': "operation j = Raised e'"
    by (cases "operation j") (auto simp: is_raised_def)
  have rec: "retry_loop n d operation (Suc j) (Some e') = (Raised e, spec_retry_events d (Suc j) k)"
    using Suc.hyps Suc.prems lt by (intro Suc.hyps(1)) auto
  have up: "[j..<k] = j # [Suc j..<k]" using lt by (simp add: upt_conv_Cons)
  from lt Suc.prems have "int j < n - 1" by simp
  then show ?case
    by (subst retry_loop.simps) (simp add: e' rec spec_retry_events_def up)
qed

lemma attempts_made_spec: "j \<le> k \<Longrightarrow> attempts_made (spec_retry_events d j k) = Suc k - j"
proof (induction "k - j" arbitrary: j)
  case 0
  then show ?case by (simp add: attempts_made_def spec_retry_events_def)
next
  case (Suc m)
  then have lt: "j < k" by simp
  have up: "[j..<k] = j # [Suc j..<k]" using lt by (simp add: upt_conv_Cons)
  have "attempts_made (spec_retry_events d (Suc j) k) = Suc k - Suc j"
    using Suc lt by (intro Suc.hyps(1)) auto
  then show ?case using lt
    by (simp add: attempts_made_def spec_retry_events_def up)
qed

lemma retry_loop_attempts_bound:
  "attempts_made (snd (retry_loop n d operation j lst)) \<le> nat (n - int j)"
proof (induction n d operation j lst rule: retry_loop.induct)
  case (1 n d operation attempt lst)
  show ?case
  proof (cases "int attempt < n")
    case False
    then show ?thesis
      by (subst retry_loop.simps) (simp add: attempts_made_def split: option.splits)
  next
    case True
    show ?thesis
    proof (cases "operation attempt")
      case (Returned v)
      with True show ?thesis
        by (subst retry_loop.simps) (simp add: attempts_made_def)
    next
      case (Raised e)
      with True 1 have "attempts_made (snd (retry_loop n d operation (Suc attempt) (Some e)))
                 \<le> nat (n - int (Suc attempt))" by simp
      with True Raised show ?thesis
        by (subst retry_loop.simps) (auto simp: attempts_made_def split: prod.splits)
    qed
  qed
qed

lemma search_subtitles_os_events:
  "opensubtitles mgr \<Longrightarrow>
     fst (snd (search_subtitles mgr os_search subdb_search file_hash)) =
       snd (retry_operation (retry_attempts mgr) (retry_delay mgr) os_search)"
  by (simp add: search_subtitles_def Let_def split: prod.splits outcome.splits)

lemma search_subtitles_subdb_events:
  "snd (snd (search_subtitles mgr os_search subdb_search file_hash)) = [] \<or>
   snd (snd (search_subtitles mgr os_search subdb_search file_hash)) =
       snd (retry_operation (retry_attempts mgr) (retry_delay mgr) subdb_search)"
  by (simp add: search_subtitles_def Let_def split: prod.splits outcome.splits)

lemma download_subtitle_content_events:
  "snd (download_subtitle_content mgr info os_download subdb_download) \<in>
     {[], snd (retry_operation (retry_attempts mgr) (retry_delay mgr) os_download),
      snd (retry_operation (retry_attempts mgr) (retry_delay mgr) subdb_download)}"
  by (simp add: download_subtitle_content_def split: prod.splits outcome.splits)

text \<open>
  C6. The manager reaches a provider only through the retry helper: the provider
  calls made by a search or a download are those of \<open>retry_operation\<close> with the
  configured attempts and delay. The helper calls the operation at most
  \<open>retry_attempts\<close> times. When the attempts \<open>0, ..., k - 1\<close> fail and attempt \<open>k\<close>
  succeeds, or attempt \<open>k\<close> fails and is the last one allowed, the helper has waited
  \<open>retry_delay * 2 ^ i\<close> after each failed attempt \<open>i < k\<close> and nowhere else; in the
  first case it returns the value, in the second it raises the exception of the
  last attempt.
\<close>

theorem retry_operation_backoff:
  "attempts_made (snd (retry_operation n d operation)) \<le> nat n
   \<and> (int k < n \<and> (\<forall>i<k. is_raised (operation i)) \<and> operation k = Returned v
        \<longrightarrow> retry_operation n d operation = (Returned v, spec_retry_events d 0 k))
   \<and> (int k = n - 1 \<and> (\<forall>i<k. is_raised (operation i)) \<and> operation k = Raised e
        \<longrightarrow> retry_operation n d operation = (Raised e, spec_retry_events d 0 k))
   \<and> (opensubtitles mgr \<longrightarrow>
        fst (snd (search_subtitles mgr os_search subdb_search file_hash)) =
          snd (retry_operation (retry_attempts mgr) (retry_delay mgr) os_search))
   \<and> snd (snd (search_subtitles mgr os_search subdb_search file_hash)) \<in>
        {[], snd (retry_operation (retry_attempts mgr) (retry_delay mgr) subdb_search)}
   \<and> snd (download_subtitle_content mgr info os_download subdb_download) \<in>
        {[], snd (retry_operation (retry_attempts mgr) (retry_delay mgr) os_download),
         snd (retry_operation (retry_attempts mgr) (retry_delay mgr) subdb_download)}"
proof (intro conjI impI)
  show "attempts_made (snd (retry_operation n d operation)) \<le> nat n"
    using retry_loop_attempts_bound [of n d operation 0 None]
    by (simp add: retry_operation_def)
next
  assume "int k < n \<and> (\<forall>i<k. is_raised (operation i)) \<and> operation k = Returned v"
  then show "retry_operation n d operation = (Returned v, spec_retry_events d 0 k)"
    unfolding retry_operation_def by (intro retry_loop_success) auto
next
  assume "int k = n - 1 \<and> (\<forall>i<k. is_raised (operation i)) \<and> operation k = Raised e"
  then show "retry_operation n d operation = (Raised e, spec_retry_events d 0 k)"
    unfolding retry_operation_def by (intro retry_loop_exhausted) auto
next
  assume "opensubtitles mgr"
  then show "fst (snd (search_subtitles mgr os_search subdb_search file_hash)) =
          snd (retry_operation (retry_attempts mgr) (retry_delay mgr) os_search)"
    by (rule search_subtitles_os_events)
next
  show "snd (snd (search_subtitles mgr os_search subdb_search file_hash)) \<in>
        {[], snd (retry_operation (retry_attempts mgr) (retry_delay mgr) subdb_search)}"
    using search_subtitles_subdb_events [of mgr os_search subdb_search file_hash] by blast
next
  show "snd (download_subtitle_content mgr info os_download subdb_download) \<in>
        {[], snd (retry_operation (retry_attempts mgr) (retry_delay mgr) os_download),
         snd (retry_operation (retry_attempts mgr) (retry_delay mgr) subdb_download)}"
    by (rule download_subtitle_content_events)
qed

theorem retry_operation_backoff_witness:
  "retry_operation 3 1 (\<lambda>k. if k < 2 then Raised (Exn ''timeout'') else Returned (7::nat)) =
     (Returned 7, [Attempt 0, Sleep 1, Attempt 1, Sleep 2, Attempt 2])
   \<and> retry_operation 3 1
        (\<lambda>k. (Raised (Exn (if k = 2 then ''last'' else ''early'')) :: nat outcome)) =
     (Raised (Exn ''last''), [Attempt 0, Sleep 1, Attempt 1, Sleep 2, Attempt 2])
   \<and> fst (snd (search_subtitles (new_api_manager True)
         (\<lambda>k. Raised (Exn ''down'')) (\<lambda>k. Returned []) None)) =
     [Attempt 0, Sleep 1, Attempt 1, Sleep 2, Attempt 2]"
proof -
  let ?ok = "\<lambda>k::nat. if k < 2 then Raised (Exn ''timeout'') else Returned (7::nat)"
  let ?bad = "\<lambda>k::nat. (Raised (Exn (if k = 2 then ''last'' else ''early'')) :: nat outcome)"
  let ?down = "\<lambda>k::nat. (Raised (Exn ''down'') :: result list outcome)"
  let ?mgr = "new_api_manager True"
  have ev: "spec_retry_events 1 0 2 = [Attempt 0, Sleep 1, Attempt 1, Sleep 2, Attempt 2]"
    by (simp add: spec_retry_events_def upt_rec)
  have h1: "int 2 < 3 \<and> (\<forall>i<2. is_raised (?ok i)) \<and> ?ok 2 = Returned 7"
    by (simp add: is_raised_def)
  have c1: "retry_operation 3 1 ?ok = (Returned 7, spec_retry_events 1 0 2)"
    using retry_operation_backoff [of 3 1 ?ok 2 7] h1 by blast
  have h2: "int 2 = 3 - 1 \<and> (\<forall>i<2. is_raised (?bad i)) \<and> ?bad 2 = Raised (Exn ''last'')"
    by (simp add: is_raised_def)
  have c2: "retry_operation 3 1 ?bad = (Raised (Exn ''last''), spec_retry_events 1 0 2)"
    using retry_operation_backoff [of 3 1 ?bad 2 _ "Exn ''last''"] h2 by blast
  have h3: "int 2 = 3 - 1 \<and> (\<forall>i<2. is_raised (?down i)) \<and> ?down 2 = Raised (Exn ''down'')"
    by (simp add: is_raised_def)
  have r3: "retry_operation 3 1 ?down = (Raised (Exn ''down''), spec_retry_events 1 0 2)"
    using retry_operation_backoff [of 3 1 ?down 2 _ "Exn ''down''"] h3 by blast
  have m: "opensubtitles ?mgr \<and> retry_attempts ?mgr = 3 \<and> retry_delay ?mgr = 1"
    by (simp add: new_api_manager_def RATE_LIMIT_CONFIG_retry_attempts_def
          RATE_LIMIT_CONFIG_retry_delay_def)
  have "fst (snd (search_subtitles ?mgr ?down (\<lambda>k. Returned []) None)) =
          snd (retry_operation (retry_attempts ?mgr) (retry_delay ?mgr) ?down)"
    using retry_operation_backoff [of 3 1 ?down 2 _ _ ?mgr ?down "\<lambda>k. Returned []" None] m
    by blast
  with m r3 have c3: "fst (snd (search_subtitles ?mgr ?down (\<lambda>k. Returned []) None)) =
      spec_retry_events 1 0 2" by simp
  from c1 c2 c3 show ?thesis by (simp only: ev)
qed
section \<open>Cache degradation\<close>







section \<open>Validation of a subtitle payload\<close>

subsection \<open>The matcher finds exactly the matches\<close>









subsection \<open>The format test is the test of the specification\<close>









subsection \<open>Validation\<close>


section \<open>The content processor never raises\<close>















section \<open>A refreshed record forgets the cached content\<close>



end
